theory Spec2Isabelle
  imports Complex_Main "HOL-Library.Log_Nat"
begin

section \<open>Data model of \<open>src/lib/study-storage.ts\<close>\<close>

text \<open>
  The interface \<open>StudyBlock\<close>. The field \<open>id\<close> is written \<open>block_id\<close> and the
  field \<open>end\<close> is written \<open>block_end\<close>; the optional \<open>description\<close> is an option.
  Strings are sequences of code units below 256.
\<close>

datatype priority = Normal | High

record StudyBlock =
  block_id :: string
  subject :: string
  description :: "string option"
  start :: string
  block_end :: string
  priority :: priority
  color :: string
  createdAt :: string
  updatedAt :: string

record ConflictError =
  message :: string
  conflictingBlock :: StudyBlock

text \<open>
  The argument of \<open>createBlock\<close>:
  \<open>Omit<StudyBlock, 'id' | 'color' | 'createdAt' | 'updatedAt'>\<close>.
\<close>

record BlockData =
  d_subject :: string
  d_description :: "string option"
  d_start :: string
  d_end :: string
  d_priority :: priority

text \<open>
  \<open>Partial<StudyBlock>\<close>: \<open>None\<close> is a key that the object does not have. The key
  \<open>description\<close> may be present with the value \<open>undefined\<close> (the form sends
  \<open>description: ... || undefined\<close>), which is \<open>Some None\<close>; the other keys, when
  present, carry a value of the field's type.
\<close>

record PartialBlock =
  p_id :: "string option"
  p_subject :: "string option"
  p_description :: "string option option"
  p_start :: "string option"
  p_end :: "string option"
  p_priority :: "priority option"
  p_color :: "string option"
  p_createdAt :: "string option"
  p_updatedAt :: "string option"

text \<open>
  What a \<open>throw\<close> carries: \<open>new Error(msg)\<close>, the \<open>SyntaxError\<close> of \<open>JSON.parse\<close>,
  the \<open>TypeError\<close> of a method call on a value that has no such method, and the
  exception that \<open>localStorage.getItem\<close> raises when storage is unavailable.
\<close>

datatype error = Error string | SyntaxError | TypeError | StorageUnavailable

subsection \<open>Dates and numbers of the host\<close>

text \<open>
  A \<open>Date\<close> is its time value: milliseconds since the epoch, or \<open>None\<close> for an
  invalid date (time value NaN). The relational operators compare the time values, and
  every comparison with NaN is false.
\<close>

type_synonym date = "int option"

definition date_lt :: "date \<Rightarrow> date \<Rightarrow> bool" where
  "date_lt a b = (case a of None \<Rightarrow> False | Some x \<Rightarrow> (case b of None \<Rightarrow> False | Some y \<Rightarrow> x < y))"

definition date_le :: "date \<Rightarrow> date \<Rightarrow> bool" where
  "date_le a b = (case a of None \<Rightarrow> False | Some x \<Rightarrow> (case b of None \<Rightarrow> False | Some y \<Rightarrow> x \<le> y))"

definition date_gt :: "date \<Rightarrow> date \<Rightarrow> bool" where
  "date_gt a b = date_lt b a"


text \<open>
  A \<open>number\<close> is an IEEE 754 double: NaN, an infinity, or a finite value, which is kept
  as the rational it stands for. The sign of zero is not kept: the operations of this
  file never produce a negative zero (a sum that is zero is \<open>+0\<close>, and no quotient of a
  non-zero duration by 3600000 underflows).
\<close>

datatype number = NaN | PosInf | NegInf | Num rat

definition pow2 :: "int \<Rightarrow> rat" where
  "pow2 k = (if 0 \<le> k then 2 ^ nat k else 1 / 2 ^ nat (- k))"

text \<open>The binary exponent \<open>\<lfloor>log\<^sub>2 a\<rfloor>\<close> of a positive rational.\<close>

definition ilog2 :: "rat \<Rightarrow> int" where
  "ilog2 a =
     (let (p, q) = quotient_of a;
          d = bitlen p - bitlen q
      in if pow2 d \<le> a then d else d - 1)"

definition roundHalfEven :: "rat \<Rightarrow> int" where
  "roundHalfEven x =
     (let f = \<lfloor>x\<rfloor>;
          d = x - of_int f
      in if d < 1 / 2 then f
         else if 1 / 2 < d then f + 1
         else if even f then f else f + 1)"

text \<open>
  Rounding of an exact result to the nearest double, ties to even: 53 bits of
  significand, the smallest exponent -1022 (below it the spacing stays \<open>2\<^sup>-\<^sup>1\<^sup>0\<^sup>7\<^sup>4\<close>),
  and an infinity from \<open>2\<^sup>1\<^sup>0\<^sup>2\<^sup>4\<close> on.
\<close>

definition toDouble :: "rat \<Rightarrow> number" where
  "toDouble x =
     (if x = 0 then Num 0
      else
        (let a = \<bar>x\<bar>;
             e = max (ilog2 a) (- 1022);
             ulp = pow2 (e - 52);
             r = of_int (roundHalfEven (a / ulp)) * ulp
         in if pow2 1024 \<le> r then (if 0 < x then PosInf else NegInf)
            else Num (if 0 < x then r else - r)))"


fun num_add :: "number \<Rightarrow> number \<Rightarrow> number" where
  "num_add (Num x) (Num y) = toDouble (x + y)"
| "num_add NaN _ = NaN"
| "num_add _ NaN = NaN"
| "num_add PosInf NegInf = NaN"
| "num_add NegInf PosInf = NaN"
| "num_add PosInf _ = PosInf"
| "num_add _ PosInf = PosInf"
| "num_add NegInf _ = NegInf"
| "num_add _ NegInf = NegInf"


text \<open>
  Division by a positive finite constant, the only division of the source
  (\<open>1000 * 60 * 60\<close>, which is the double 3600000).
\<close>

fun num_div :: "number \<Rightarrow> rat \<Rightarrow> number" where
  "num_div (Num x) k = toDouble (x / k)"
| "num_div NaN k = NaN"
| "num_div PosInf k = PosInf"
| "num_div NegInf k = NegInf"


subsection \<open>\<open>String.prototype.toLowerCase\<close> and \<open>trim\<close>\<close>

definition lower_char :: "char \<Rightarrow> char" where
  "lower_char c =
     (let n = (of_char c :: nat)
      in if (65 \<le> n \<and> n \<le> 90) \<or> (192 \<le> n \<and> n \<le> 222 \<and> n \<noteq> 215)
         then char_of (n + 32) else c)"

definition toLowerCase :: "string \<Rightarrow> string" where
  "toLowerCase s = map lower_char s"

definition isWhiteSpace :: "char \<Rightarrow> bool" where
  "isWhiteSpace c = ((of_char c :: nat) \<in> {9, 10, 11, 12, 13, 32, 160})"

definition trim :: "string \<Rightarrow> string" where
  "trim s = rev (dropWhile isWhiteSpace (rev (dropWhile isWhiteSpace s)))"

section \<open>The color assignment table\<close>

definition SUBJECT_COLORS :: "string list" where
  "SUBJECT_COLORS =
     [''subject-blue'', ''subject-green'', ''subject-purple'', ''subject-orange'',
      ''subject-pink'', ''subject-teal'', ''subject-indigo'', ''subject-cyan'',
      ''subject-red'', ''subject-yellow'']"

text \<open>
  \<open>colorAssignments: Map<string, string>\<close>, in insertion order. The source calls
  \<open>set\<close> only for a key the map does not have, which appends the entry.
\<close>

type_synonym colorAssignments = "(string \<times> string) list"

definition getSubjectColor :: "colorAssignments \<Rightarrow> string \<Rightarrow> string \<times> colorAssignments" where
  "getSubjectColor t subj =
     (let normalizedSubject = trim (toLowerCase subj)
      in case map_of t normalizedSubject of
           Some c \<Rightarrow> (c, t)
         | None \<Rightarrow>
             (let usedColors = set (map snd t);
                  availableColor =
                    (case find (\<lambda>c. c \<notin> usedColors) SUBJECT_COLORS of
                       Some c \<Rightarrow> c
                     | None \<Rightarrow> SUBJECT_COLORS ! 0)
              in (availableColor, t @ [(normalizedSubject, availableColor)])))"

text \<open>
  What an element of a parsed array is at run time. The parameter of
  \<open>rebuildColorAssignments\<close> is declared \<open>StudyBlock[]\<close>, but \<open>loadBlocks\<close> passes what
  \<open>JSON.parse\<close> returned, unchecked. \<open>Block b\<close> is an element of the declared type.
  \<open>NotABlock\<close> is any element on which \<open>block.subject.toLowerCase()\<close> throws a
  \<open>TypeError\<close>: \<open>null\<close>, a number, a string, a boolean, an array, or an object whose
  \<open>subject\<close> is absent or not a string. An object with a string \<open>subject\<close> is taken to
  carry its other fields at their declared types.
\<close>

datatype element = Block StudyBlock | NotABlock

text \<open>
  The \<open>forEach\<close> of \<open>rebuildColorAssignments\<close>: the exception thrown, if any, and the
  table as the loop leaves it.
\<close>

fun rebuild_forEach :: "element list \<Rightarrow> colorAssignments \<Rightarrow> error option \<times> colorAssignments" where
  "rebuild_forEach [] t = (None, t)"
| "rebuild_forEach (NotABlock # bs) t = (Some TypeError, t)"
| "rebuild_forEach (Block b # bs) t =
     (let normalizedSubject = trim (toLowerCase (subject b))
      in rebuild_forEach bs
           (if map_of t normalizedSubject = None then t @ [(normalizedSubject, color b)] else t))"

text \<open>\<open>this.colorAssignments.clear()\<close>, then the loop.\<close>

definition rebuildColorAssignments :: "element list \<Rightarrow> error option \<times> colorAssignments" where
  "rebuildColorAssignments blocks = rebuild_forEach blocks []"

section \<open>The block store\<close>

subsection \<open>\<open>loadBlocks\<close>\<close>

text \<open>
  What \<open>JSON.parse\<close> returns, as far as \<open>loadBlocks\<close> looks at it: an array of
  elements or something that is not an array. The parser itself is a parameter
  \<open>JSON_parse\<close>; \<open>Inl\<close> is its exception.
\<close>

datatype json = JsonArray "element list" | JsonOther

text \<open>
  The body of the \<open>try\<close>. \<open>getItem\<close> is the outcome of
  \<open>localStorage.getItem(STORAGE_KEY)\<close>: an exception, \<open>null\<close> or the stored string;
  \<open>!stored\<close> holds for \<open>null\<close> and for the empty string. The result is the value
  returned or the exception thrown, with the table as the body leaves it. The array is
  returned as it was parsed.
\<close>

definition loadBlocks_try ::
  "(string \<Rightarrow> error + json) \<Rightarrow> error + string option \<Rightarrow> colorAssignments
     \<Rightarrow> (error + element list) \<times> colorAssignments" where
  "loadBlocks_try JSON_parse getItem t =
     (case getItem of
        Inl e \<Rightarrow> (Inl e, t)
      | Inr None \<Rightarrow> (Inr [], t)
      | Inr (Some stored) \<Rightarrow>
          if stored = [] then (Inr [], t)
          else (case JSON_parse stored of
                  Inl e \<Rightarrow> (Inl e, t)
                | Inr data \<Rightarrow>
                    (let blocks = (case data of JsonArray es \<Rightarrow> es | JsonOther \<Rightarrow> [])
                     in case rebuildColorAssignments blocks of
                          (Some e, t') \<Rightarrow> (Inl e, t')
                        | (None, t') \<Rightarrow> (Inr blocks, t'))))"

text \<open>
  \<open>loadBlocks\<close> with its \<open>catch\<close>: the state is the table and the lines written
  with \<open>console.error\<close>.
\<close>

definition loadBlocks ::
  "(string \<Rightarrow> error + json) \<Rightarrow> error + string option
     \<Rightarrow> colorAssignments \<times> (string \<times> error) list
     \<Rightarrow> (error + element list) \<times> colorAssignments \<times> (string \<times> error) list" where
  "loadBlocks JSON_parse getItem st =
     (case loadBlocks_try JSON_parse getItem (fst st) of
        (Inr blocks, t) \<Rightarrow> (Inr blocks, t, snd st)
      | (Inl e, t) \<Rightarrow> (Inr [], t, snd st @ [(''Failed to load study blocks:'', e)]))"

text \<open>
  \<open>clearAll\<close>: the state is the value stored under the key and the table.
\<close>

definition clearAll :: "string option \<times> colorAssignments \<Rightarrow> string option \<times> colorAssignments" where
  "clearAll st = (None, [])"

subsection \<open>\<open>createBlock\<close> and \<open>updateBlock\<close>\<close>

text \<open>
  \<open>now\<close> is \<open>new Date().toISOString()\<close> and \<open>uuid\<close> is \<open>uuidv4()\<close> at the call.
\<close>

definition createBlock ::
  "BlockData \<Rightarrow> string \<Rightarrow> string \<Rightarrow> colorAssignments \<Rightarrow> StudyBlock \<times> colorAssignments" where
  "createBlock data now uuid t =
     (let (c, t') = getSubjectColor t (d_subject data)
      in (\<lparr>block_id = uuid, subject = d_subject data, description = d_description data,
           start = d_start data, block_end = d_end data, priority = d_priority data,
           color = c, createdAt = now, updatedAt = now\<rparr>, t'))"

text \<open>\<open>Array.prototype.findIndex\<close>: the first index whose element passes, or -1.\<close>

fun findIndex_from :: "('a \<Rightarrow> bool) \<Rightarrow> 'a list \<Rightarrow> int \<Rightarrow> int" where
  "findIndex_from P [] i = - 1"
| "findIndex_from P (x # xs) i = (if P x then i else findIndex_from P xs (i + 1))"

definition findIndex :: "('a \<Rightarrow> bool) \<Rightarrow> 'a list \<Rightarrow> int" where
  "findIndex P xs = findIndex_from P xs 0"

text \<open>The object spread \<open>{...currentBlock, ...updates}\<close>.\<close>

definition spread :: "StudyBlock \<Rightarrow> PartialBlock \<Rightarrow> StudyBlock" where
  "spread b u =
     \<lparr>block_id = (case p_id u of None \<Rightarrow> block_id b | Some v \<Rightarrow> v),
      subject = (case p_subject u of None \<Rightarrow> subject b | Some v \<Rightarrow> v),
      description = (case p_description u of None \<Rightarrow> description b | Some v \<Rightarrow> v),
      start = (case p_start u of None \<Rightarrow> start b | Some v \<Rightarrow> v),
      block_end = (case p_end u of None \<Rightarrow> block_end b | Some v \<Rightarrow> v),
      priority = (case p_priority u of None \<Rightarrow> priority b | Some v \<Rightarrow> v),
      color = (case p_color u of None \<Rightarrow> color b | Some v \<Rightarrow> v),
      createdAt = (case p_createdAt u of None \<Rightarrow> createdAt b | Some v \<Rightarrow> v),
      updatedAt = (case p_updatedAt u of None \<Rightarrow> updatedAt b | Some v \<Rightarrow> v)\<rparr>"

text \<open>
  \<open>updateBlock\<close> returns the thrown error or the new block, together with the collection
  and the table as they are after the call. \<open>updates.subject && ...\<close> fails for an absent
  and for an empty subject.
\<close>

definition updateBlock ::
  "StudyBlock list \<Rightarrow> string \<Rightarrow> PartialBlock \<Rightarrow> string \<Rightarrow> colorAssignments
     \<Rightarrow> (error + StudyBlock) \<times> StudyBlock list \<times> colorAssignments" where
  "updateBlock blocks ident updates now t =
     (let blockIndex = findIndex (\<lambda>b. block_id b = ident) blocks
      in if blockIndex = - 1 then (Inl (Error ''Study block not found''), blocks, t)
         else
           (let currentBlock = blocks ! nat blockIndex;
                updatedBlock = (spread currentBlock updates)\<lparr>block_id := ident, updatedAt := now\<rparr>
            in case p_subject updates of
                 None \<Rightarrow> (Inr updatedBlock, blocks, t)
               | Some s \<Rightarrow>
                   if s \<noteq> [] \<and> s \<noteq> subject currentBlock
                   then (let (c, t') = getSubjectColor t s
                         in (Inr (updatedBlock\<lparr>color := c\<rparr>), blocks, t'))
                   else (Inr updatedBlock, blocks, t)))"

section \<open>The conflict validator\<close>

text \<open>
  \<open>newDate\<close> is \<open>new Date(string)\<close> and \<open>formatTime\<close> the private method of that
  name (\<open>toLocaleTimeString\<close>); \<open>excludeId\<close> is \<open>None\<close> when the argument is left out.
\<close>

definition validateBlock ::
  "(string \<Rightarrow> date) \<Rightarrow> (date \<Rightarrow> string) \<Rightarrow> StudyBlock \<Rightarrow> StudyBlock list \<Rightarrow> string option
     \<Rightarrow> ConflictError option" where
  "validateBlock newDate formatTime block existingBlocks excludeId =
     (let startD = newDate (start block);
          endD = newDate (block_end block)
      in if date_le endD startD
         then Some \<lparr>message = ''End time must be after start time'', conflictingBlock = block\<rparr>
         else
           (case find (\<lambda>existing.
                         if Some (block_id existing) = excludeId then False
                         else (let existingStart = newDate (start existing);
                                   existingEnd = newDate (block_end existing)
                               in date_lt startD existingEnd \<and> date_gt endD existingStart))
                      existingBlocks of
              Some cb \<Rightarrow>
                Some \<lparr>message =
                        ''This block overlaps with your '' @ subject cb @ '' session from ''
                          @ formatTime (newDate (start cb)) @ '' to ''
                          @ formatTime (newDate (block_end cb)),
                      conflictingBlock = cb\<rparr>
            | None \<Rightarrow> None))"

section \<open>The statistics aggregator\<close>



section \<open>Predicates of the specification\<close>

text \<open>
  Overlap of a candidate \<open>b\<close> with an existing block under half-open semantics, as the
  specification words it: \<open>b.start < existing.end AND b.end > existing.start\<close>.
\<close>

definition overlaps :: "(string \<Rightarrow> date) \<Rightarrow> StudyBlock \<Rightarrow> StudyBlock \<Rightarrow> bool" where
  "overlaps newDate b existing =
     (date_lt (newDate (start b)) (newDate (block_end existing))
      \<and> date_gt (newDate (block_end b)) (newDate (start existing)))"

text \<open>
  The object literal of \<open>updateBlock\<close> before the color is looked at, and the test
  \<open>updates.subject && updates.subject !== currentBlock.subject\<close>.
\<close>

definition merged :: "StudyBlock \<Rightarrow> PartialBlock \<Rightarrow> string \<Rightarrow> string \<Rightarrow> StudyBlock" where
  "merged cur updates ident now = (spread cur updates)\<lparr>block_id := ident, updatedAt := now\<rparr>"

definition subjectChanged :: "StudyBlock \<Rightarrow> PartialBlock \<Rightarrow> bool" where
  "subjectChanged cur updates =
     (case p_subject updates of None \<Rightarrow> False | Some s \<Rightarrow> s \<noteq> [] \<and> s \<noteq> subject cur)"

text \<open>
  The calls on a store that look the table up without resetting it, and the table after
  such a call. (\<open>validateBlock\<close>, \<open>getSubjectStats\<close> and \<open>saveBlocks\<close> do not touch the
  table; \<open>loadBlocks\<close> and \<open>clearAll\<close> reset it.)
\<close>

datatype call =
    CreateCall BlockData string string
  | UpdateCall "StudyBlock list" string PartialBlock string

fun tableAfter :: "call \<Rightarrow> colorAssignments \<Rightarrow> colorAssignments" where
  "tableAfter (CreateCall data now uuid) t = snd (createBlock data now uuid t)"
| "tableAfter (UpdateCall blocks ident updates now) t =
     snd (snd (updateBlock blocks ident updates now t))"




section \<open>Sample values\<close>

text \<open>
  \<open>sampleDate\<close> gives the time values of \<open>new Date\<close> at the ISO strings used below
  and an invalid date elsewhere; \<open>sampleFormat\<close> gives their \<open>en-US\<close> times in UTC.
\<close>

definition sampleDate :: "string \<Rightarrow> date" where
  "sampleDate =
     map_of
       [(''2025-08-04T08:00:00.000Z'', 1754294400000),
        (''2025-08-04T09:00:00.000Z'', 1754298000000),
        (''2025-08-04T09:30:00.000Z'', 1754299800000),
        (''2025-08-04T10:00:00.000Z'', 1754301600000),
        (''2025-08-04T10:30:00.000Z'', 1754303400000),
        (''2025-08-04T11:00:00.000Z'', 1754305200000)]"

definition sampleFormat :: "date \<Rightarrow> string" where
  "sampleFormat d =
     (case Option.bind d (map_of
             [(1754294400000 :: int, ''8:00 AM''), (1754298000000, ''9:00 AM''),
              (1754299800000, ''9:30 AM''), (1754301600000, ''10:00 AM''),
              (1754303400000, ''10:30 AM''), (1754305200000, ''11:00 AM'')]) of
        Some s \<Rightarrow> s | None \<Rightarrow> ''Invalid Date'')"

definition sampleBlock :: "string \<Rightarrow> string \<Rightarrow> string \<Rightarrow> string \<Rightarrow> string \<Rightarrow> StudyBlock" where
  "sampleBlock i s c from to =
     \<lparr>block_id = i, subject = s, description = None, start = from, block_end = to,
      priority = Normal, color = c, createdAt = ''2025-08-01T10:00:00.000Z'',
      updatedAt = ''2025-08-01T10:00:00.000Z''\<rparr>"

definition mathBlock :: StudyBlock where
  "mathBlock = sampleBlock ''a1'' ''Math'' ''subject-blue''
                 ''2025-08-04T09:00:00.000Z'' ''2025-08-04T10:00:00.000Z''"

definition physicsBlock :: StudyBlock where
  "physicsBlock = sampleBlock ''b2'' ''Physics'' ''subject-green''
                    ''2025-08-04T09:30:00.000Z'' ''2025-08-04T10:30:00.000Z''"

definition chemistryBlock :: StudyBlock where
  "chemistryBlock = sampleBlock ''c3'' ''Chemistry'' ''subject-purple''
                      ''2025-08-04T08:00:00.000Z'' ''2025-08-04T09:30:00.000Z''"

definition historyBlock :: StudyBlock where
  "historyBlock = sampleBlock ''d4'' ''History'' ''subject-orange''
                    ''2025-08-04T10:00:00.000Z'' ''2025-08-04T11:00:00.000Z''"

definition noUpdates :: PartialBlock where
  "noUpdates =
     \<lparr>p_id = None, p_subject = None, p_description = None, p_start = None, p_end = None,
      p_priority = None, p_color = None, p_createdAt = None, p_updatedAt = None\<rparr>"

definition sampleData :: "string \<Rightarrow> BlockData" where
  "sampleData s =
     \<lparr>d_subject = s, d_description = None, d_start = ''2025-08-04T09:00:00.000Z'',
      d_end = ''2025-08-04T10:00:00.000Z'', d_priority = Normal\<rparr>"

text \<open>
  Two stored texts, the second with an element that is no block, and a stand-in for
  \<open>JSON.parse\<close> that knows them and a few other texts.
\<close>

definition sampleStored :: string where
  \<open>sampleStored = ''[{"id":"a1","subject":"Math","start":"2025-08-04T09:00:00.000Z","end":"2025-08-04T10:00:00.000Z","priority":"normal","color":"subject-blue","createdAt":"2025-08-01T10:00:00.000Z","updatedAt":"2025-08-01T10:00:00.000Z"},{"id":"b2","subject":"Physics","start":"2025-08-04T09:30:00.000Z","end":"2025-08-04T10:30:00.000Z","priority":"normal","color":"subject-green","createdAt":"2025-08-01T10:00:00.000Z","updatedAt":"2025-08-01T10:00:00.000Z"}]''\<close>

definition sampleStoredBad :: string where
  \<open>sampleStoredBad = ''[{"id":"a1","subject":"Math","start":"2025-08-04T09:00:00.000Z","end":"2025-08-04T10:00:00.000Z","priority":"normal","color":"subject-blue","createdAt":"2025-08-01T10:00:00.000Z","updatedAt":"2025-08-01T10:00:00.000Z"},{"id":"x"}]''\<close>

definition sampleParse :: "string \<Rightarrow> error + json" where
  \<open>sampleParse s =
     (if s = sampleStored then Inr (JsonArray [Block mathBlock, Block physicsBlock])
      else if s = sampleStoredBad then Inr (JsonArray [Block mathBlock, NotABlock])
      else if s = ''[]'' then Inr (JsonArray [])
      else if s \<in> {''{"studyTimetable":[]}'', ''42'', ''"Math"'', ''null''} then Inr JsonOther
      else Inl SyntaxError)\<close>




section \<open>Unfolding the sample values\<close>

lemmas sample_defs = sampleDate_def sampleFormat_def sampleBlock_def mathBlock_def physicsBlock_def
  chemistryBlock_def historyBlock_def

section \<open>Comparison of dates\<close>

lemma date_lt_None [simp]: "date_lt None d = False" "date_lt d None = False"
  by (simp_all add: date_lt_def split: option.splits)

lemma date_le_None [simp]: "date_le None d = False" "date_le d None = False"
  by (simp_all add: date_le_def split: option.splits)

section \<open>Properties of the conflict validator\<close>

lemma date_gt_not_le: "date_gt a b \<Longrightarrow> \<not> date_le a b"
  by (auto simp: date_gt_def date_lt_def date_le_def split: option.splits)

lemma validateBlock_scan:
  assumes "\<not> date_le (newDate (block_end b)) (newDate (start b))"
  shows "validateBlock newDate formatTime b existing excludeId =
           (case find (\<lambda>e. Some (block_id e) \<noteq> excludeId \<and> overlaps newDate b e) existing of
              Some cb \<Rightarrow>
                Some \<lparr>message =
                        ''This block overlaps with your '' @ subject cb @ '' session from ''
                          @ formatTime (newDate (start cb)) @ '' to ''
                          @ formatTime (newDate (block_end cb)),
                      conflictingBlock = cb\<rparr>
            | None \<Rightarrow> None)"
proof -
  have eq: "(\<lambda>existing.
                         if Some (block_id existing) = excludeId then False
                         else (let existingStart = newDate (start existing);
                                   existingEnd = newDate (block_end existing)
                               in date_lt (newDate (start b)) existingEnd \<and> date_gt (newDate (block_end b)) existingStart))
           = (\<lambda>e. Some (block_id e) \<noteq> excludeId \<and> overlaps newDate b e)"
    by (auto simp: overlaps_def Let_def)
  show ?thesis
    using assms unfolding validateBlock_def Let_def eq[unfolded Let_def] by simp
qed

lemma physics_range: "date_gt (sampleDate (block_end physicsBlock)) (sampleDate (start physicsBlock))"
  by (simp add: sample_defs date_gt_def date_lt_def)

lemma validateBlock_sample:
  "validateBlock sampleDate sampleFormat physicsBlock
      [chemistryBlock, physicsBlock, mathBlock, historyBlock] (Some ''b2'')
   = Some \<lparr>message = ''This block overlaps with your Math session from 9:00 AM to 10:00 AM'',
           conflictingBlock = mathBlock\<rparr>"
  by (simp add: validateBlock_def sample_defs date_gt_def date_lt_def date_le_def)

text \<open>
  Claim C1. For a candidate whose end is after its start, \<open>validateBlock\<close> returns
  none exactly when no existing block with an id other than \<open>excludeId\<close> overlaps it;
  otherwise the error references the first such block in the order of the list. Blocks
  that touch the candidate (one's end is the other's start) do not overlap it.
\<close>

theorem validateBlock_first_overlap:
  assumes "date_gt (newDate (block_end b)) (newDate (start b))"
  shows "(validateBlock newDate formatTime b existing excludeId = None
            \<longleftrightarrow> (\<forall>e \<in> set existing. Some (block_id e) = excludeId \<or> \<not> overlaps newDate b e))
         \<and> (\<forall>err. validateBlock newDate formatTime b existing excludeId = Some err \<longrightarrow>
               (\<exists>i < length existing.
                   conflictingBlock err = existing ! i
                   \<and> Some (block_id (existing ! i)) \<noteq> excludeId
                   \<and> overlaps newDate b (existing ! i)
                   \<and> (\<forall>j < i. Some (block_id (existing ! j)) = excludeId
                                 \<or> \<not> overlaps newDate b (existing ! j))))
         \<and> (\<forall>e. newDate (block_end e) = newDate (start b) \<or> newDate (start e) = newDate (block_end b)
                 \<longrightarrow> \<not> overlaps newDate b e)"
proof -
  let ?P = "\<lambda>e. Some (block_id e) \<noteq> excludeId \<and> overlaps newDate b e"
  have nle: "\<not> date_le (newDate (block_end b)) (newDate (start b))"
    using assms by (rule date_gt_not_le)
  note scan = validateBlock_scan[OF nle, of formatTime existing excludeId]
  have none: "validateBlock newDate formatTime b existing excludeId = None
            \<longleftrightarrow> (\<forall>e \<in> set existing. Some (block_id e) = excludeId \<or> \<not> overlaps newDate b e)"
  proof (cases "find ?P existing")
    case None
    then have "\<forall>e \<in> set existing. \<not> ?P e"
      by (simp add: find_None_iff)
    with None show ?thesis unfolding scan by auto
  next
    case (Some cb)
    then have "\<exists>e \<in> set existing. ?P e"
      unfolding find_Some_iff by (metis nth_mem)
    with Some show ?thesis unfolding scan by auto
  qed
  have some: "\<exists>i < length existing.
                   conflictingBlock err = existing ! i
                   \<and> Some (block_id (existing ! i)) \<noteq> excludeId
                   \<and> overlaps newDate b (existing ! i)
                   \<and> (\<forall>j < i. Some (block_id (existing ! j)) = excludeId
                                 \<or> \<not> overlaps newDate b (existing ! j))"
    if "validateBlock newDate formatTime b existing excludeId = Some err" for err
  proof -
    from that obtain cb where f: "find ?P existing = Some cb" and cb: "conflictingBlock err = cb"
      unfolding scan by (auto split: option.splits)
    from f obtain i where "i < length existing" "?P (existing ! i)" "cb = existing ! i"
      "\<forall>j<i. \<not> ?P (existing ! j)"
      unfolding find_Some_iff by blast
    with cb show ?thesis by blast
  qed
  have touch: "\<not> overlaps newDate b e"
    if "newDate (block_end e) = newDate (start b) \<or> newDate (start e) = newDate (block_end b)" for e
    using that by (auto simp: overlaps_def date_gt_def date_lt_def split: option.splits)
  from none some touch show ?thesis by blast
qed

theorem validateBlock_first_overlap_witness:
  "date_gt (sampleDate (block_end physicsBlock)) (sampleDate (start physicsBlock))
   \<and> (\<exists>err. validateBlock sampleDate sampleFormat physicsBlock
               [chemistryBlock, physicsBlock, mathBlock, historyBlock] (Some ''b2'') = Some err
             \<and> conflictingBlock err = mathBlock)
   \<and> \<not> overlaps sampleDate physicsBlock chemistryBlock"
proof -
  have h: "date_gt (sampleDate (block_end physicsBlock)) (sampleDate (start physicsBlock))"
    by (rule physics_range)
  note t = validateBlock_first_overlap[OF h, of sampleFormat
             "[chemistryBlock, physicsBlock, mathBlock, historyBlock]" "Some ''b2''"]
  have ov: "overlaps sampleDate physicsBlock mathBlock"
    by (simp add: overlaps_def sample_defs date_gt_def date_lt_def)
  have idm: "Some (block_id mathBlock) \<noteq> Some ''b2''"
    by (simp add: sample_defs)
  have nn: "validateBlock sampleDate sampleFormat physicsBlock
        [chemistryBlock, physicsBlock, mathBlock, historyBlock] (Some ''b2'') \<noteq> None"
    using t ov idm by auto
  have touch: "\<not> overlaps sampleDate physicsBlock chemistryBlock"
  proof -
    have "sampleDate (block_end chemistryBlock) = sampleDate (start physicsBlock)"
      by (simp add: sample_defs)
    with t show ?thesis by blast
  qed
  have first: "conflictingBlock err = mathBlock"
    if e: "validateBlock sampleDate sampleFormat physicsBlock
               [chemistryBlock, physicsBlock, mathBlock, historyBlock] (Some ''b2'') = Some err" for err
  proof -
    let ?L = "[chemistryBlock, physicsBlock, mathBlock, historyBlock]"
    from t e obtain i where i: "i < length ?L"
      "conflictingBlock err = ?L ! i"
      "Some (block_id (?L ! i)) \<noteq> Some ''b2''"
      "overlaps sampleDate physicsBlock (?L ! i)"
      "\<forall>j<i. Some (block_id (?L ! j)) = Some ''b2'' \<or> \<not> overlaps sampleDate physicsBlock (?L ! j)"
      by blast
    from i(1) have "i < 4" by simp
    then consider "i = 0" | "i = 1" | "i = 2" | "i = 3" by linarith
    then show ?thesis
    proof cases
      case 1 with i(2,4) touch show ?thesis by simp
    next
      case 2 with i(3) show ?thesis by (simp add: sample_defs)
    next
      case 3 with i(2) show ?thesis by simp
    next
      case 4
      from i(5) have "2 < i \<longrightarrow> Some (block_id (?L ! 2)) = Some ''b2'' \<or> \<not> overlaps sampleDate physicsBlock (?L ! 2)"
        by (rule spec)
      with 4 have "Some (block_id mathBlock) = Some ''b2'' \<or> \<not> overlaps sampleDate physicsBlock mathBlock"
        by simp
      with ov idm show ?thesis by simp
    qed
  qed
  from nn obtain err where
    "validateBlock sampleDate sampleFormat physicsBlock
       [chemistryBlock, physicsBlock, mathBlock, historyBlock] (Some ''b2'') = Some err"
    by blast
  with first have "\<exists>err. validateBlock sampleDate sampleFormat physicsBlock
               [chemistryBlock, physicsBlock, mathBlock, historyBlock] (Some ''b2'') = Some err
             \<and> conflictingBlock err = mathBlock"
    by blast
  with h touch show ?thesis by blast
qed

text \<open>
  Claim C4. For a candidate with \<open>end <= start\<close>, \<open>validateBlock\<close> returns the range
  error with the candidate as its block, whatever the existing blocks and \<open>excludeId\<close>
  are: the answer is the one for an empty list.
\<close>

theorem validateBlock_range_check:
  assumes "date_le (newDate (block_end b)) (newDate (start b))"
  shows "validateBlock newDate formatTime b existing excludeId =
           Some \<lparr>message = ''End time must be after start time'', conflictingBlock = b\<rparr>
         \<and> validateBlock newDate formatTime b existing excludeId =
             validateBlock newDate formatTime b [] None"
  using assms by (simp add: validateBlock_def)

theorem validateBlock_range_check_witness:
  "date_le (sampleDate (block_end (mathBlock\<lparr>block_end := ''2025-08-04T09:00:00.000Z''\<rparr>)))
           (sampleDate (start (mathBlock\<lparr>block_end := ''2025-08-04T09:00:00.000Z''\<rparr>)))
   \<and> validateBlock sampleDate sampleFormat (mathBlock\<lparr>block_end := ''2025-08-04T09:00:00.000Z''\<rparr>)
        [physicsBlock] None
      = Some \<lparr>message = ''End time must be after start time'',
              conflictingBlock = mathBlock\<lparr>block_end := ''2025-08-04T09:00:00.000Z''\<rparr>\<rparr>"
proof -
  have h: "date_le (sampleDate (block_end (mathBlock\<lparr>block_end := ''2025-08-04T09:00:00.000Z''\<rparr>)))
           (sampleDate (start (mathBlock\<lparr>block_end := ''2025-08-04T09:00:00.000Z''\<rparr>)))"
    by (simp add: sample_defs date_le_def)
  from validateBlock_range_check[OF h, of sampleFormat "[physicsBlock]" None] h
  show ?thesis by blast
qed

text \<open>
  Claim C9. For a candidate whose start or end is an invalid date, \<open>validateBlock\<close>
  returns none for every list of existing blocks.
\<close>

theorem validateBlock_invalid_date:
  assumes "newDate (start b) = None \<or> newDate (block_end b) = None"
  shows "validateBlock newDate formatTime b existing excludeId = None"
proof -
  have nle: "\<not> date_le (newDate (block_end b)) (newDate (start b))"
    using assms by auto
  have "\<not> overlaps newDate b e" for e
    using assms by (auto simp: overlaps_def date_gt_def)
  then have "find (\<lambda>e. Some (block_id e) \<noteq> excludeId \<and> overlaps newDate b e) existing = None"
    by (simp add: find_None_iff)
  then show ?thesis
    by (simp add: validateBlock_scan[OF nle])
qed

theorem validateBlock_invalid_date_witness:
  "sampleDate (block_end (mathBlock\<lparr>block_end := ''tomorrow''\<rparr>)) = None
   \<and> validateBlock sampleDate sampleFormat (mathBlock\<lparr>block_end := ''tomorrow''\<rparr>)
        [physicsBlock, mathBlock] None = None"
proof -
  have h: "sampleDate (block_end (mathBlock\<lparr>block_end := ''tomorrow''\<rparr>)) = None"
    by (simp add: sample_defs)
  then have "sampleDate (start (mathBlock\<lparr>block_end := ''tomorrow''\<rparr>)) = None
             \<or> sampleDate (block_end (mathBlock\<lparr>block_end := ''tomorrow''\<rparr>)) = None"
    by (rule disjI2)
  from validateBlock_invalid_date[OF this, of sampleFormat "[physicsBlock, mathBlock]" None] h
  show ?thesis by blast
qed

section \<open>Properties of \<open>updateBlock\<close>\<close>

lemma findIndex_from_find:
  "0 \<le> i \<Longrightarrow>
     (case find P xs of
        None \<Rightarrow> findIndex_from P xs i = - 1
      | Some x \<Rightarrow> i \<le> findIndex_from P xs i \<and> xs ! nat (findIndex_from P xs i - i) = x)"
proof (induction xs arbitrary: i)
  case Nil
  then show ?case by simp
next
  case (Cons a xs)
  show ?case
  proof (cases "P a")
    case True
    then show ?thesis by simp
  next
    case False
    from Cons.prems have i1: "0 \<le> i + 1" by simp
    show ?thesis
    proof (cases "find P xs")
      case None
      with Cons.IH[OF i1] False show ?thesis by simp
    next
      case (Some x)
      with Cons.IH[OF i1] have le: "i + 1 \<le> findIndex_from P xs (i + 1)"
        and nth: "xs ! nat (findIndex_from P xs (i + 1) - (i + 1)) = x"
        by simp_all
      from le have "nat (findIndex_from P xs (i + 1) - i) = Suc (nat (findIndex_from P xs (i + 1) - (i + 1)))"
        by simp
      with le nth Some False show ?thesis by simp
    qed
  qed
qed

lemma findIndex_None: "find P xs = None \<Longrightarrow> findIndex P xs = - 1"
  using findIndex_from_find[of 0 P xs] by (simp add: findIndex_def)

lemma findIndex_Some:
  "find P xs = Some x \<Longrightarrow> findIndex P xs \<noteq> - 1 \<and> xs ! nat (findIndex P xs) = x"
  using findIndex_from_find[of 0 P xs] by (auto simp add: findIndex_def)

lemma updateBlock_missing:
  assumes "find (\<lambda>b. block_id b = ident) blocks = None"
  shows "updateBlock blocks ident updates now t = (Inl (Error ''Study block not found''), blocks, t)"
  using findIndex_None[OF assms] by (simp add: updateBlock_def)

lemma updateBlock_found:
  assumes "find (\<lambda>b. block_id b = ident) blocks = Some cur"
  shows "updateBlock blocks ident updates now t =
           (if subjectChanged cur updates
            then (Inr ((merged cur updates ident now)
                         \<lparr>color := fst (getSubjectColor t (the (p_subject updates)))\<rparr>),
                  blocks, snd (getSubjectColor t (the (p_subject updates))))
            else (Inr (merged cur updates ident now), blocks, t))"
  using findIndex_Some[OF assms]
  by (simp add: updateBlock_def merged_def subjectChanged_def Let_def split_beta split: option.splits)

lemma normalize_samples:
  "trim (toLowerCase ''Math'') = ''math''"
  "trim (toLowerCase ''math '') = ''math''"
  "trim (toLowerCase ''Physics'') = ''physics''"
  "trim (toLowerCase '' PHYSICS'') = ''physics''"
  "trim (toLowerCase ''Chemistry'') = ''chemistry''"
  "trim (toLowerCase ''History'') = ''history''"
  by code_simp+

lemma find_physics:
  "find (\<lambda>b. block_id b = ''b2'') [mathBlock, physicsBlock] = Some physicsBlock"
  by (simp add: sample_defs)

text \<open>
  Claim C2, as amended. \<open>updateBlock\<close> throws the not-found error exactly when no block of
  the collection has the id, and returns a block exactly when one has. The block returned
  is the first block with that id merged with the partial fields, except that \<open>id\<close> is
  the given id, \<open>updatedAt\<close> is the current instant, and \<open>color\<close> is looked up in the
  color assignment table when the partial fields carry a non-empty subject that is not the
  current subject. The collection is as it was.
\<close>

theorem updateBlock_outcome:
  "(fst (updateBlock blocks ident updates now t) = Inl (Error ''Study block not found'')
      \<longleftrightarrow> (\<forall>b \<in> set blocks. block_id b \<noteq> ident))
   \<and> (\<forall>cur. find (\<lambda>b. block_id b = ident) blocks = Some cur \<longrightarrow>
         fst (updateBlock blocks ident updates now t) =
           Inr ((spread cur updates)
                  \<lparr>block_id := ident, updatedAt := now,
                   color := (case p_subject updates of
                               None \<Rightarrow> color (spread cur updates)
                             | Some s \<Rightarrow>
                                 if s \<noteq> [] \<and> s \<noteq> subject cur then fst (getSubjectColor t s)
                                 else color (spread cur updates))\<rparr>))
   \<and> ((\<exists>r. fst (updateBlock blocks ident updates now t) = Inr r)
        \<longleftrightarrow> (\<exists>b \<in> set blocks. block_id b = ident))
   \<and> fst (snd (updateBlock blocks ident updates now t)) = blocks"
proof (cases "find (\<lambda>b. block_id b = ident) blocks")
  case None
  then have "\<forall>b \<in> set blocks. block_id b \<noteq> ident"
    by (simp add: find_None_iff)
  with None show ?thesis
    by (simp add: updateBlock_missing)
next
  case (Some cur)
  then have ex: "\<exists>b \<in> set blocks. block_id b = ident"
    unfolding find_Some_iff by (metis nth_mem)
  have r: "fst (updateBlock blocks ident updates now t) =
           Inr ((spread cur updates)
                  \<lparr>block_id := ident, updatedAt := now,
                   color := (case p_subject updates of
                               None \<Rightarrow> color (spread cur updates)
                             | Some s \<Rightarrow>
                                 if s \<noteq> [] \<and> s \<noteq> subject cur then fst (getSubjectColor t s)
                                 else color (spread cur updates))\<rparr>)"
    by (simp add: updateBlock_found[OF Some] merged_def subjectChanged_def split: option.splits)
  have b: "fst (snd (updateBlock blocks ident updates now t)) = blocks"
    by (simp add: updateBlock_found[OF Some])
  from ex have nf: "\<not> (\<forall>b \<in> set blocks. block_id b \<noteq> ident)" by blast
  from r have ne: "fst (updateBlock blocks ident updates now t) \<noteq> Inl (Error ''Study block not found'')"
    by simp
  from r have exr: "\<exists>r. fst (updateBlock blocks ident updates now t) = Inr r" by blast
  from Some r b ex nf ne exr show ?thesis by simp
qed

theorem updateBlock_outcome_witness:
  "find (\<lambda>b. block_id b = ''b2'') [mathBlock, physicsBlock] = Some physicsBlock
   \<and> fst (updateBlock [mathBlock, physicsBlock] ''b2''
            (noUpdates\<lparr>p_id := Some ''zz'', p_description := Some (Some ''Optics'')\<rparr>)
            ''2025-08-04T11:00:00.000Z'' [])
       = Inr (physicsBlock\<lparr>description := Some ''Optics'',
                             updatedAt := ''2025-08-04T11:00:00.000Z''\<rparr>)
   \<and> fst (updateBlock [mathBlock, physicsBlock] ''zz'' noUpdates ''2025-08-04T11:00:00.000Z'' [])
       = Inl (Error ''Study block not found'')
   \<and> fst (snd (updateBlock [mathBlock, physicsBlock] ''b2''
            (noUpdates\<lparr>p_id := Some ''zz'', p_description := Some (Some ''Optics'')\<rparr>)
            ''2025-08-04T11:00:00.000Z'' [])) = [mathBlock, physicsBlock]"
proof -
  note found = updateBlock_outcome[of "[mathBlock, physicsBlock]" "''b2''"
      "noUpdates\<lparr>p_id := Some ''zz'', p_description := Some (Some ''Optics'')\<rparr>"
      "''2025-08-04T11:00:00.000Z''" "[]"]
  note missing = updateBlock_outcome[of "[mathBlock, physicsBlock]" "''zz''" noUpdates
      "''2025-08-04T11:00:00.000Z''" "[]"]
  have absent: "\<forall>b \<in> set [mathBlock, physicsBlock]. block_id b \<noteq> ''zz''"
    by (simp add: sample_defs)
  from found find_physics
  have "fst (updateBlock [mathBlock, physicsBlock] ''b2''
            (noUpdates\<lparr>p_id := Some ''zz'', p_description := Some (Some ''Optics'')\<rparr>)
            ''2025-08-04T11:00:00.000Z'' [])
       = Inr ((spread physicsBlock (noUpdates\<lparr>p_id := Some ''zz'', p_description := Some (Some ''Optics'')\<rparr>))
                  \<lparr>block_id := ''b2'', updatedAt := ''2025-08-04T11:00:00.000Z'',
                   color := (case p_subject (noUpdates\<lparr>p_id := Some ''zz'', p_description := Some (Some ''Optics'')\<rparr>) of
                               None \<Rightarrow> color (spread physicsBlock (noUpdates\<lparr>p_id := Some ''zz'', p_description := Some (Some ''Optics'')\<rparr>))
                             | Some s \<Rightarrow>
                                 if s \<noteq> [] \<and> s \<noteq> subject physicsBlock then fst (getSubjectColor [] s)
                                 else color (spread physicsBlock (noUpdates\<lparr>p_id := Some ''zz'', p_description := Some (Some ''Optics'')\<rparr>)))\<rparr>)"
    by blast
  then have a: "fst (updateBlock [mathBlock, physicsBlock] ''b2''
            (noUpdates\<lparr>p_id := Some ''zz'', p_description := Some (Some ''Optics'')\<rparr>)
            ''2025-08-04T11:00:00.000Z'' [])
       = Inr (physicsBlock\<lparr>description := Some ''Optics'',
                             updatedAt := ''2025-08-04T11:00:00.000Z''\<rparr>)"
    by (simp add: spread_def noUpdates_def sample_defs)
  from missing absent
  have b: "fst (updateBlock [mathBlock, physicsBlock] ''zz'' noUpdates ''2025-08-04T11:00:00.000Z'' [])
       = Inl (Error ''Study block not found'')"
    by blast
  from found have c: "fst (snd (updateBlock [mathBlock, physicsBlock] ''b2''
            (noUpdates\<lparr>p_id := Some ''zz'', p_description := Some (Some ''Optics'')\<rparr>)
            ''2025-08-04T11:00:00.000Z'' [])) = [mathBlock, physicsBlock]"
    by blast
  from find_physics a b c show ?thesis by blast
qed

text \<open>
  The claim as it stands, that the block returned is the merge with \<open>id\<close> and
  \<open>updatedAt\<close> set, fails when the subject is renamed: the merge keeps the color of the
  existing block, the block returned has the next free color.
\<close>

theorem updateBlock_merge_counterexample:
  "fst (updateBlock [mathBlock] ''a1'' (noUpdates\<lparr>p_subject := Some ''Physics''\<rparr>)
          ''2025-08-04T11:00:00.000Z'' [(''math'', ''subject-blue'')])
     = Inr (mathBlock\<lparr>subject := ''Physics'', color := ''subject-green'',
                        updatedAt := ''2025-08-04T11:00:00.000Z''\<rparr>)
   \<and> (spread mathBlock (noUpdates\<lparr>p_subject := Some ''Physics''\<rparr>))
         \<lparr>block_id := ''a1'', updatedAt := ''2025-08-04T11:00:00.000Z''\<rparr>
     = mathBlock\<lparr>subject := ''Physics'', color := ''subject-blue'',
                   updatedAt := ''2025-08-04T11:00:00.000Z''\<rparr>"
  by (simp add: updateBlock_def findIndex_def getSubjectColor_def SUBJECT_COLORS_def
                normalize_samples spread_def noUpdates_def sample_defs Let_def)

text \<open>
  Claim C5, as amended. When the partial fields supply no \<open>createdAt\<close>, the block
  returned has the \<open>createdAt\<close> of the existing block (a supplied \<open>createdAt\<close> is taken
  over by the merge). Apart from \<open>updatedAt\<close>, a field differs from the existing block's
  only if the partial fields name it, and \<open>color\<close> also when they carry another subject.
\<close>

theorem updateBlock_frame:
  assumes "find (\<lambda>b. block_id b = ident) blocks = Some cur"
  shows "\<exists>r. fst (updateBlock blocks ident updates now t) = Inr r
           \<and> (p_createdAt updates = None \<longrightarrow> createdAt r = createdAt cur)
           \<and> (\<forall>c. p_createdAt updates = Some c \<longrightarrow> createdAt r = c)
           \<and> block_id r = block_id cur
           \<and> (subject r \<noteq> subject cur \<longrightarrow> p_subject updates \<noteq> None)
           \<and> (description r \<noteq> description cur \<longrightarrow> p_description updates \<noteq> None)
           \<and> (start r \<noteq> start cur \<longrightarrow> p_start updates \<noteq> None)
           \<and> (block_end r \<noteq> block_end cur \<longrightarrow> p_end updates \<noteq> None)
           \<and> (priority r \<noteq> priority cur \<longrightarrow> p_priority updates \<noteq> None)
           \<and> (color r \<noteq> color cur \<longrightarrow>
                 p_color updates \<noteq> None \<or> (\<exists>s. p_subject updates = Some s \<and> s \<noteq> subject cur))"
proof -
  from assms have "block_id cur = ident"
    unfolding find_Some_iff by blast
  then show ?thesis
    by (auto simp add: updateBlock_found[OF assms] merged_def subjectChanged_def spread_def
             split: option.splits)
qed

theorem updateBlock_frame_witness:
  "find (\<lambda>b. block_id b = ''b2'') [mathBlock, physicsBlock] = Some physicsBlock
   \<and> (\<exists>r. fst (updateBlock [mathBlock, physicsBlock] ''b2''
                 (noUpdates\<lparr>p_start := Some ''2025-08-04T10:00:00.000Z''\<rparr>)
                 ''2025-08-04T11:00:00.000Z'' [(''math'', ''subject-blue''), (''physics'', ''subject-green'')])
             = Inr r
          \<and> createdAt r = createdAt physicsBlock \<and> block_id r = ''b2''
          \<and> subject r = subject physicsBlock \<and> description r = description physicsBlock
          \<and> block_end r = block_end physicsBlock \<and> priority r = priority physicsBlock
          \<and> color r = color physicsBlock)"
proof -
  let ?u = "noUpdates\<lparr>p_start := Some ''2025-08-04T10:00:00.000Z''\<rparr>"
  have u: "p_createdAt ?u = None" "p_subject ?u = None" "p_description ?u = None"
    "p_end ?u = None" "p_priority ?u = None" "p_color ?u = None"
    by (simp_all add: noUpdates_def)
  have i: "block_id physicsBlock = ''b2''" by (simp add: sample_defs)
  from updateBlock_frame[OF find_physics, of ?u "''2025-08-04T11:00:00.000Z''"
         "[(''math'', ''subject-blue''), (''physics'', ''subject-green'')]"]
  show ?thesis
    using find_physics u i by (metis option.distinct(1))
qed

text \<open>
  The claim as it stands fails for partial fields that supply a \<open>createdAt\<close>.
\<close>

theorem updateBlock_createdAt_counterexample:
  "fst (updateBlock [mathBlock] ''a1'' (noUpdates\<lparr>p_createdAt := Some ''2030-01-01T00:00:00.000Z''\<rparr>)
          ''2025-08-04T11:00:00.000Z'' [(''math'', ''subject-blue'')])
     = Inr (mathBlock\<lparr>createdAt := ''2030-01-01T00:00:00.000Z'',
                        updatedAt := ''2025-08-04T11:00:00.000Z''\<rparr>)
   \<and> createdAt mathBlock = ''2025-08-01T10:00:00.000Z''"
  by (simp add: updateBlock_def findIndex_def spread_def noUpdates_def sample_defs)

text \<open>
  Claim C6, as amended. The color is looked up in the table exactly when the partial fields
  carry a non-empty subject that is not identical to the current subject; otherwise it is
  the merged color and the table is untouched. For a subject equal to the current one
  after lowercasing and trimming, the block returned keeps the existing block's color
  whenever the table maps the normalized subject to that color (and, where nothing is
  looked up, the partial fields supply no color).
\<close>

theorem updateBlock_color:
  assumes "find (\<lambda>b. block_id b = ident) blocks = Some cur"
  shows "\<exists>r. fst (updateBlock blocks ident updates now t) = Inr r
           \<and> (\<forall>s. p_subject updates = Some s \<and> s \<noteq> [] \<and> s \<noteq> subject cur \<longrightarrow>
                  color r = fst (getSubjectColor t s)
                  \<and> snd (snd (updateBlock blocks ident updates now t)) = snd (getSubjectColor t s))
           \<and> (\<not> (\<exists>s. p_subject updates = Some s \<and> s \<noteq> [] \<and> s \<noteq> subject cur) \<longrightarrow>
                  color r = (case p_color updates of None \<Rightarrow> color cur | Some c \<Rightarrow> c)
                  \<and> snd (snd (updateBlock blocks ident updates now t)) = t)
           \<and> (\<forall>s. p_subject updates = Some s
                   \<and> trim (toLowerCase s) = trim (toLowerCase (subject cur))
                   \<and> map_of t (trim (toLowerCase (subject cur))) = Some (color cur)
                   \<and> (p_color updates = None \<or> (s \<noteq> [] \<and> s \<noteq> subject cur))
                 \<longrightarrow> color r = color cur)"
  by (auto simp add: updateBlock_found[OF assms] merged_def subjectChanged_def spread_def
                     getSubjectColor_def
           split: option.splits)

theorem updateBlock_color_witness:
  "find (\<lambda>b. block_id b = ''b2'') [mathBlock, physicsBlock] = Some physicsBlock
   \<and> trim (toLowerCase '' PHYSICS'') = trim (toLowerCase (subject physicsBlock))
   \<and> map_of [(''math'', ''subject-blue''), (''physics'', ''subject-green'')]
         (trim (toLowerCase (subject physicsBlock))) = Some (color physicsBlock)
   \<and> (\<exists>r. fst (updateBlock [mathBlock, physicsBlock] ''b2''
                 (noUpdates\<lparr>p_subject := Some '' PHYSICS''\<rparr>)
                 ''2025-08-04T11:00:00.000Z'' [(''math'', ''subject-blue''), (''physics'', ''subject-green'')])
             = Inr r
          \<and> color r = color physicsBlock)"
proof -
  let ?u = "noUpdates\<lparr>p_subject := Some '' PHYSICS''\<rparr>"
  let ?t = "[(''math'', ''subject-blue''), (''physics'', ''subject-green'')]"
  have n: "trim (toLowerCase '' PHYSICS'') = trim (toLowerCase (subject physicsBlock))"
    by (simp add: normalize_samples sample_defs)
  have m: "map_of ?t (trim (toLowerCase (subject physicsBlock))) = Some (color physicsBlock)"
    by (simp add: normalize_samples sample_defs)
  have u: "p_subject ?u = Some '' PHYSICS''" "p_color ?u = None"
    by (simp_all add: noUpdates_def)
  from updateBlock_color[OF find_physics, of ?u "''2025-08-04T11:00:00.000Z''" ?t]
  obtain r where r: "fst (updateBlock [mathBlock, physicsBlock] ''b2'' ?u ''2025-08-04T11:00:00.000Z'' ?t) = Inr r"
    and c: "\<forall>s. p_subject ?u = Some s
                   \<and> trim (toLowerCase s) = trim (toLowerCase (subject physicsBlock))
                   \<and> map_of ?t (trim (toLowerCase (subject physicsBlock))) = Some (color physicsBlock)
                   \<and> (p_color ?u = None \<or> (s \<noteq> [] \<and> s \<noteq> subject physicsBlock))
                 \<longrightarrow> color r = color physicsBlock"
    by blast
  from c u n m have "color r = color physicsBlock" by blast
  with r find_physics n m show ?thesis by blast
qed

text \<open>
  The claim as it stands fails when the table does not hold the existing block's color
  for its subject: a case and whitespace variant of the subject is compared with
  \<open>!==\<close>, differs, and gets the color the table assigns.
\<close>

theorem updateBlock_color_counterexample:
  "trim (toLowerCase '' PHYSICS'') = trim (toLowerCase (subject physicsBlock))
   \<and> fst (updateBlock [physicsBlock] ''b2'' (noUpdates\<lparr>p_subject := Some '' PHYSICS''\<rparr>)
            ''2025-08-04T11:00:00.000Z'' [])
       = Inr (physicsBlock\<lparr>subject := '' PHYSICS'', color := ''subject-blue'',
                             updatedAt := ''2025-08-04T11:00:00.000Z''\<rparr>)
   \<and> color physicsBlock = ''subject-green''"
  by (simp add: updateBlock_def findIndex_def getSubjectColor_def SUBJECT_COLORS_def
                normalize_samples spread_def noUpdates_def sample_defs Let_def)

section \<open>Properties of the color assignment\<close>

lemma getSubjectColor_normalized:
  "trim (toLowerCase s1) = trim (toLowerCase s2) \<Longrightarrow> getSubjectColor t s1 = getSubjectColor t s2"
  by (simp add: getSubjectColor_def)

lemma getSubjectColor_assigned:
  "map_of (snd (getSubjectColor t s)) (trim (toLowerCase s)) = Some (fst (getSubjectColor t s))"
  by (simp add: getSubjectColor_def Let_def map_add_def split: option.splits)

lemma getSubjectColor_keeps:
  "map_of t k = Some c \<Longrightarrow> map_of (snd (getSubjectColor t s)) k = Some c"
  by (simp add: getSubjectColor_def Let_def map_add_def split: option.splits)

lemma getSubjectColor_known:
  "map_of t (trim (toLowerCase s)) = Some c \<Longrightarrow> getSubjectColor t s = (c, t)"
  by (simp add: getSubjectColor_def)

lemma createBlock_color: "color (fst (createBlock d now uuid t)) = fst (getSubjectColor t (d_subject d))"
  by (simp add: createBlock_def split_beta)

lemma createBlock_table: "snd (createBlock d now uuid t) = snd (getSubjectColor t (d_subject d))"
  by (simp add: createBlock_def split_beta)

lemma updateBlock_table_keeps:
  assumes "map_of t k = Some c"
  shows "map_of (snd (snd (updateBlock blocks ident updates now t))) k = Some c"
proof (cases "find (\<lambda>b. block_id b = ident) blocks")
  case None
  with assms show ?thesis by (simp add: updateBlock_missing)
next
  case (Some cur)
  with assms show ?thesis
    by (simp add: updateBlock_found getSubjectColor_keeps)
qed

lemma tableAfter_keeps:
  "map_of t k = Some c \<Longrightarrow> map_of (tableAfter call t) k = Some c"
  by (cases call) (simp_all add: createBlock_table getSubjectColor_keeps updateBlock_table_keeps)

lemma fold_tableAfter_keeps:
  "map_of t k = Some c \<Longrightarrow> map_of (fold tableAfter calls t) k = Some c"
  by (induction calls arbitrary: t) (simp_all add: tableAfter_keeps)

lemma createBlock_sample:
  "createBlock (sampleData ''Math'') ''2025-08-01T10:00:00.000Z'' ''a1'' [] =
     (mathBlock, [(''math'', ''subject-blue'')])"
  by (simp add: createBlock_def getSubjectColor_def SUBJECT_COLORS_def normalize_samples
                sampleData_def sample_defs Let_def)

text \<open>
  Claim C8, as amended. Two calls of \<open>createBlock\<close> on a store whose subjects are equal
  after lowercasing and trimming return blocks of the same color, whatever calls of
  \<open>createBlock\<close> and \<open>updateBlock\<close> come between them, as long as the table is not reset
  in between; and on one table \<open>getSubjectColor\<close> gives the same color and the same table
  for two such subjects.
\<close>

theorem createBlock_color_normalized:
  assumes "trim (toLowerCase (d_subject d1)) = trim (toLowerCase (d_subject d2))"
  shows "color (fst (createBlock d2 now2 uuid2
                       (fold tableAfter between (snd (createBlock d1 now1 uuid1 t)))))
           = color (fst (createBlock d1 now1 uuid1 t))
         \<and> getSubjectColor t (d_subject d1) = getSubjectColor t (d_subject d2)"
proof -
  let ?c = "fst (getSubjectColor t (d_subject d1))"
  let ?t1 = "snd (getSubjectColor t (d_subject d1))"
  have "map_of ?t1 (trim (toLowerCase (d_subject d2))) = Some ?c"
    using getSubjectColor_assigned[of t "d_subject d1"] assms by simp
  then have "map_of (fold tableAfter between ?t1) (trim (toLowerCase (d_subject d2))) = Some ?c"
    by (rule fold_tableAfter_keeps)
  then have "fst (getSubjectColor (fold tableAfter between ?t1) (d_subject d2)) = ?c"
    by (simp add: getSubjectColor_known)
  moreover have "getSubjectColor t (d_subject d1) = getSubjectColor t (d_subject d2)"
    using assms by (rule getSubjectColor_normalized)
  ultimately show ?thesis
    by (simp add: createBlock_color createBlock_table)
qed

theorem createBlock_color_normalized_witness:
  "color (fst (createBlock (sampleData ''Math'') ''2025-08-01T10:00:00.000Z'' ''a1'' [])) = ''subject-blue''
   \<and> color (fst (createBlock (sampleData ''math '') ''2025-08-01T10:05:00.000Z'' ''e5''
                    (fold tableAfter
                       [CreateCall (sampleData ''Physics'') ''2025-08-01T10:01:00.000Z'' ''b2'',
                        UpdateCall [mathBlock, physicsBlock] ''b2''
                          (noUpdates\<lparr>p_subject := Some ''Chemistry''\<rparr>) ''2025-08-01T10:02:00.000Z'']
                       (snd (createBlock (sampleData ''Math'') ''2025-08-01T10:00:00.000Z'' ''a1'' [])))))
       = ''subject-blue''
   \<and> color (fst (createBlock (sampleData ''math '') ''2025-08-01T10:05:00.000Z'' ''e5''
                    (snd (createBlock (sampleData ''Math'') ''2025-08-01T10:00:00.000Z'' ''a1'' []))))
       = ''subject-blue''"
proof -
  have h: "trim (toLowerCase (d_subject (sampleData ''Math''))) = trim (toLowerCase (d_subject (sampleData ''math '')))"
    by (simp add: sampleData_def normalize_samples)
  have c: "color (fst (createBlock (sampleData ''Math'') ''2025-08-01T10:00:00.000Z'' ''a1'' [])) = ''subject-blue''"
    by (simp add: createBlock_sample sample_defs)
  note t = createBlock_color_normalized[OF h, where ?now1.0 = "''2025-08-01T10:00:00.000Z''"
         and ?uuid1.0 = "''a1''" and ?now2.0 = "''2025-08-01T10:05:00.000Z''" and ?uuid2.0 = "''e5''"
         and t = "[]"]
  from t[where between = "[CreateCall (sampleData ''Physics'') ''2025-08-01T10:01:00.000Z'' ''b2'',
                        UpdateCall [mathBlock, physicsBlock] ''b2''
                          (noUpdates\<lparr>p_subject := Some ''Chemistry''\<rparr>) ''2025-08-01T10:02:00.000Z'']"]
       t[where between = "[]"] c
  show ?thesis by simp
qed

text \<open>
  The claim as it stands, for every two calls on the same store, fails when \<open>clearAll\<close>
  comes between them: the table is emptied, another subject takes the first color, and
  the variant of the first subject gets the second.
\<close>

theorem createBlock_after_clearAll_counterexample:
  "trim (toLowerCase (d_subject (sampleData ''Math''))) = trim (toLowerCase (d_subject (sampleData ''math '')))
   \<and> color (fst (createBlock (sampleData ''Math'') ''2025-08-01T10:00:00.000Z'' ''a1'' [])) = ''subject-blue''
   \<and> color (fst (createBlock (sampleData ''math '') ''2025-08-01T10:05:00.000Z'' ''e5''
                    (snd (createBlock (sampleData ''Physics'') ''2025-08-01T10:03:00.000Z'' ''b2''
                       (snd (clearAll (Some ''[]'',
                          snd (createBlock (sampleData ''Math'') ''2025-08-01T10:00:00.000Z'' ''a1'' []))))))))
       = ''subject-green''"
  by (simp add: createBlock_def getSubjectColor_def SUBJECT_COLORS_def normalize_samples
                sampleData_def clearAll_def Let_def)

section \<open>Properties of \<open>loadBlocks\<close>\<close>

lemma rebuild_forEach_blocks:
  "\<exists>t'. rebuild_forEach (map Block bs) t = (None, t')
        \<and> (\<forall>k. map_of t' k =
               (case map_of t k of
                  Some c \<Rightarrow> Some c
                | None \<Rightarrow> map_option color (find (\<lambda>b. trim (toLowerCase (subject b)) = k) bs)))"
proof (induction bs arbitrary: t)
  case Nil
  then show ?case by (simp split: option.splits)
next
  case (Cons b bs)
  let ?n = "trim (toLowerCase (subject b))"
  let ?t = "if map_of t ?n = None then t @ [(?n, color b)] else t"
  from Cons.IH[of ?t] obtain t' where
    r: "rebuild_forEach (map Block bs) ?t = (None, t')"
    and m: "\<forall>k. map_of t' k =
               (case map_of ?t k of
                  Some c \<Rightarrow> Some c
                | None \<Rightarrow> map_option color (find (\<lambda>b. trim (toLowerCase (subject b)) = k) bs))"
    by blast
  from r have "rebuild_forEach (map Block (b # bs)) t = (None, t')"
    by (simp add: Let_def)
  moreover have "map_of t' k =
               (case map_of t k of
                  Some c \<Rightarrow> Some c
                | None \<Rightarrow> map_option color (find (\<lambda>b. trim (toLowerCase (subject b)) = k) (b # bs)))" for k
    using m by (simp add: map_add_def split: option.splits)
  ultimately show ?case by blast
qed

lemma rebuildColorAssignments_blocks:
  "\<exists>t'. rebuildColorAssignments (map Block bs) = (None, t')
        \<and> (\<forall>k. map_of t' k = map_option color (find (\<lambda>b. trim (toLowerCase (subject b)) = k) bs))"
  using rebuild_forEach_blocks[of bs "[]"] by (simp add: rebuildColorAssignments_def)

lemma rebuild_forEach_throws:
  "NotABlock \<in> set es \<Longrightarrow> fst (rebuild_forEach es t) = Some TypeError"
proof (induction es arbitrary: t)
  case Nil
  then show ?case by simp
next
  case (Cons e es)
  then show ?case by (cases e) (auto simp: Let_def)
qed

lemma rebuildColorAssignments_throws:
  "NotABlock \<in> set es \<Longrightarrow> \<exists>t'. rebuildColorAssignments es = (Some TypeError, t')"
  using rebuild_forEach_throws[of es "[]"]
  by (cases "rebuild_forEach es []") (simp add: rebuildColorAssignments_def)

lemma loadBlocks_parsed:
  assumes "stored \<noteq> []" and "JSON_parse stored = Inr data"
  shows "loadBlocks JSON_parse (Inr (Some stored)) (t, console) =
           (let blocks = (case data of JsonArray es \<Rightarrow> es | JsonOther \<Rightarrow> [])
            in case rebuildColorAssignments blocks of
                 (Some e, t') \<Rightarrow> (Inr [], t', console @ [(''Failed to load study blocks:'', e)])
               | (None, t') \<Rightarrow> (Inr blocks, t', console))"
  using assms
  by (simp add: loadBlocks_def loadBlocks_try_def Let_def split: prod.splits option.splits)

lemma sampleStored_distinct: "sampleStoredBad \<noteq> sampleStored"
  by (simp add: sampleStored_def sampleStoredBad_def)

lemma sampleParse_values:
  \<open>sampleParse [] = Inl SyntaxError\<close>
  \<open>sampleParse ''{"studyTimetable":[]}'' = Inr JsonOther\<close>
  \<open>sampleParse ''{not json'' = Inl SyntaxError\<close>
  \<open>sampleParse sampleStored = Inr (JsonArray (map Block [mathBlock, physicsBlock]))\<close>
  \<open>sampleParse sampleStoredBad = Inr (JsonArray [Block mathBlock, NotABlock])\<close>
  \<open>sampleStored \<noteq> []\<close>
  \<open>sampleStoredBad \<noteq> []\<close>
       apply (simp_all add: sampleParse_def sampleStored_distinct)
     apply (simp_all add: sampleStored_def sampleStoredBad_def)
  done

lemma loadBlocks_malformed_sample:
  "loadBlocks sampleParse (Inr (Some sampleStoredBad)) ([(''history'', ''subject-red'')], [])
     = (Inr [], [(''math'', ''subject-blue'')], [(''Failed to load study blocks:'', TypeError)])"
  by (simp add: loadBlocks_parsed[where JSON_parse = sampleParse and stored = sampleStoredBad,
                                  OF sampleParse_values(7) sampleParse_values(5)]
                rebuildColorAssignments_def normalize_samples sample_defs)

text \<open>
  Claim C3, as amended. \<open>loadBlocks\<close> never fails. When nothing is stored (or the empty
  string is), it returns the empty sequence and logs nothing. When reading or parsing
  throws, and when the stored text parses to an array with an element that has no string
  subject (the rebuild throws on it), it returns the empty sequence and logs the
  diagnostic. When the stored text parses to an array of blocks, that array is returned
  and the table is rebuilt from it: each normalized subject has the stored color of the
  first block with that subject. When it parses to something that is not an array, the
  empty sequence is returned and the table is rebuilt to empty.
\<close>

theorem loadBlocks_recovers:
  "(\<exists>blocks. fst (loadBlocks JSON_parse getItem (t, console)) = Inr blocks)
   \<and> (getItem = Inr None \<or> getItem = Inr (Some []) \<longrightarrow>
        fst (loadBlocks JSON_parse getItem (t, console)) = Inr []
        \<and> snd (snd (loadBlocks JSON_parse getItem (t, console))) = console)
   \<and> (\<forall>e. getItem = Inl e \<or> (\<exists>s. getItem = Inr (Some s) \<and> s \<noteq> [] \<and> JSON_parse s = Inl e) \<longrightarrow>
        fst (loadBlocks JSON_parse getItem (t, console)) = Inr []
        \<and> snd (snd (loadBlocks JSON_parse getItem (t, console)))
            = console @ [(''Failed to load study blocks:'', e)])
   \<and> (\<forall>s es. getItem = Inr (Some s) \<and> s \<noteq> [] \<and> JSON_parse s = Inr (JsonArray es)
               \<and> NotABlock \<in> set es \<longrightarrow>
        fst (loadBlocks JSON_parse getItem (t, console)) = Inr []
        \<and> snd (snd (loadBlocks JSON_parse getItem (t, console)))
            = console @ [(''Failed to load study blocks:'', TypeError)])
   \<and> (\<forall>s bs. getItem = Inr (Some s) \<and> s \<noteq> [] \<and> JSON_parse s = Inr (JsonArray (map Block bs)) \<longrightarrow>
        (\<exists>t'. loadBlocks JSON_parse getItem (t, console) = (Inr (map Block bs), t', console)
             \<and> rebuildColorAssignments (map Block bs) = (None, t')
             \<and> (\<forall>k. map_of t' k
                       = map_option color (find (\<lambda>b. trim (toLowerCase (subject b)) = k) bs))))
   \<and> (\<forall>s. getItem = Inr (Some s) \<and> s \<noteq> [] \<and> JSON_parse s = Inr JsonOther \<longrightarrow>
        loadBlocks JSON_parse getItem (t, console) = (Inr [], [], console))"
proof -
  have total: "\<exists>blocks. fst (loadBlocks JSON_parse getItem (t, console)) = Inr blocks"
    by (simp add: loadBlocks_def split: prod.splits sum.splits)
  have missing: "fst (loadBlocks JSON_parse getItem (t, console)) = Inr []
        \<and> snd (snd (loadBlocks JSON_parse getItem (t, console))) = console"
    if "getItem = Inr None \<or> getItem = Inr (Some [])"
    using that by (auto simp: loadBlocks_def loadBlocks_try_def)
  have thrown: "fst (loadBlocks JSON_parse getItem (t, console)) = Inr []
        \<and> snd (snd (loadBlocks JSON_parse getItem (t, console)))
            = console @ [(''Failed to load study blocks:'', e)]"
    if "getItem = Inl e \<or> (\<exists>s. getItem = Inr (Some s) \<and> s \<noteq> [] \<and> JSON_parse s = Inl e)" for e
    using that by (auto simp: loadBlocks_def loadBlocks_try_def)
  have malformed: "fst (loadBlocks JSON_parse getItem (t, console)) = Inr []
        \<and> snd (snd (loadBlocks JSON_parse getItem (t, console)))
            = console @ [(''Failed to load study blocks:'', TypeError)]"
    if "getItem = Inr (Some s) \<and> s \<noteq> [] \<and> JSON_parse s = Inr (JsonArray es) \<and> NotABlock \<in> set es"
    for s es
  proof -
    from that obtain t' where "rebuildColorAssignments es = (Some TypeError, t')"
      using rebuildColorAssignments_throws by blast
    with that show ?thesis
      by (simp add: loadBlocks_parsed)
  qed
  have blocks: "\<exists>t'. loadBlocks JSON_parse getItem (t, console) = (Inr (map Block bs), t', console)
             \<and> rebuildColorAssignments (map Block bs) = (None, t')
             \<and> (\<forall>k. map_of t' k
                       = map_option color (find (\<lambda>b. trim (toLowerCase (subject b)) = k) bs))"
    if "getItem = Inr (Some s) \<and> s \<noteq> [] \<and> JSON_parse s = Inr (JsonArray (map Block bs))" for s bs
  proof -
    from rebuildColorAssignments_blocks[of bs] obtain t' where
      r: "rebuildColorAssignments (map Block bs) = (None, t')"
      and m: "\<forall>k. map_of t' k = map_option color (find (\<lambda>b. trim (toLowerCase (subject b)) = k) bs)"
      by blast
    from that r have "loadBlocks JSON_parse getItem (t, console) = (Inr (map Block bs), t', console)"
      by (simp add: loadBlocks_parsed)
    with r m show ?thesis by blast
  qed
  have other: "loadBlocks JSON_parse getItem (t, console) = (Inr [], [], console)"
    if "getItem = Inr (Some s) \<and> s \<noteq> [] \<and> JSON_parse s = Inr JsonOther" for s
    using that by (simp add: loadBlocks_parsed rebuildColorAssignments_def)
  show ?thesis
    apply (intro conjI)
         apply (rule total)
        apply (intro impI, erule missing)
       apply (intro allI impI, erule thrown)
      apply (intro allI impI, erule malformed)
     apply (intro allI impI, erule blocks)
    apply (intro allI impI, erule other)
    done
qed

theorem loadBlocks_recovers_witness:
  \<open>fst (loadBlocks sampleParse (Inr None) ([(''math'', ''subject-blue'')], [])) = Inr []
   \<and> snd (snd (loadBlocks sampleParse (Inr None) ([(''math'', ''subject-blue'')], []))) = []
   \<and> fst (loadBlocks sampleParse (Inr (Some ''{not json'')) ([], [])) = Inr []
   \<and> snd (snd (loadBlocks sampleParse (Inr (Some ''{not json'')) ([], [])))
       = [(''Failed to load study blocks:'', SyntaxError)]
   \<and> fst (loadBlocks sampleParse (Inr (Some sampleStoredBad)) ([], [])) = Inr []
   \<and> snd (snd (loadBlocks sampleParse (Inr (Some sampleStoredBad)) ([], [])))
       = [(''Failed to load study blocks:'', TypeError)]
   \<and> loadBlocks sampleParse (Inr (Some sampleStored)) ([(''history'', ''subject-red'')], [])
       = (Inr [Block mathBlock, Block physicsBlock],
          [(''math'', ''subject-blue''), (''physics'', ''subject-green'')], [])\<close>
proof -
  note a = loadBlocks_recovers[of sampleParse "Inr None" "[(''math'', ''subject-blue'')]" "[]"]
  note b = loadBlocks_recovers[of sampleParse "Inr (Some ''{not json'')" "[]" "[]"]
  note c = loadBlocks_recovers[of sampleParse "Inr (Some sampleStored)" "[(''history'', ''subject-red'')]" "[]"]
  note d = loadBlocks_recovers[of sampleParse "Inr (Some sampleStoredBad)" "[]" "[]"]
  have r: "rebuildColorAssignments (map Block [mathBlock, physicsBlock])
             = (None, [(''math'', ''subject-blue''), (''physics'', ''subject-green'')])"
    by (simp add: rebuildColorAssignments_def normalize_samples sample_defs)
  from a[THEN conjunct2, THEN conjunct1]
  have 1: "fst (loadBlocks sampleParse (Inr None) ([(''math'', ''subject-blue'')], [])) = Inr []
        \<and> snd (snd (loadBlocks sampleParse (Inr None) ([(''math'', ''subject-blue'')], []))) = []"
    by simp
  from b[THEN conjunct2, THEN conjunct2, THEN conjunct1, THEN spec, of SyntaxError]
  have 2: "fst (loadBlocks sampleParse (Inr (Some ''{not json'')) ([], [])) = Inr []
        \<and> snd (snd (loadBlocks sampleParse (Inr (Some ''{not json'')) ([], [])))
            = [(''Failed to load study blocks:'', SyntaxError)]"
    by (simp add: sampleParse_values(3))
  from d[THEN conjunct2, THEN conjunct2, THEN conjunct2, THEN conjunct1, THEN spec, THEN spec,
         of sampleStoredBad "[Block mathBlock, NotABlock]"]
  have 3: "fst (loadBlocks sampleParse (Inr (Some sampleStoredBad)) ([], [])) = Inr []
        \<and> snd (snd (loadBlocks sampleParse (Inr (Some sampleStoredBad)) ([], [])))
            = [(''Failed to load study blocks:'', TypeError)]"
    by (simp add: sampleParse_values(5,7))
  from c[THEN conjunct2, THEN conjunct2, THEN conjunct2, THEN conjunct2, THEN conjunct1,
         THEN spec, THEN spec, of sampleStored "[mathBlock, physicsBlock]"]
  have "\<exists>t'. loadBlocks sampleParse (Inr (Some sampleStored)) ([(''history'', ''subject-red'')], [])
                     = (Inr (map Block [mathBlock, physicsBlock]), t', [])
           \<and> rebuildColorAssignments (map Block [mathBlock, physicsBlock]) = (None, t')"
    using sampleParse_values(4,6) by blast
  with r have 4: "loadBlocks sampleParse (Inr (Some sampleStored)) ([(''history'', ''subject-red'')], [])
       = (Inr [Block mathBlock, Block physicsBlock],
          [(''math'', ''subject-blue''), (''physics'', ''subject-green'')], [])"
    by auto
  from 1 2 3 4 show ?thesis by (intro conjI) (erule conjunct1 conjunct2 | assumption)+
qed

text \<open>
  The claim as it stands, that a diagnostic is logged and the table is rebuilt from the
  sequence returned in every case, fails when nothing is stored: \<open>if (!stored) return []\<close>
  leaves before the rebuild, so nothing is logged and the table keeps its entries, where
  a rebuild from the empty sequence gives the empty table.
\<close>

theorem loadBlocks_missing_counterexample:
  "loadBlocks sampleParse (Inr None) ([(''math'', ''subject-blue'')], [])
     = (Inr [], [(''math'', ''subject-blue'')], [])
   \<and> rebuildColorAssignments [] = (None, [])"
  by (simp add: loadBlocks_def loadBlocks_try_def rebuildColorAssignments_def)

text \<open>
  Claim C10. When the stored text parses to something that is not an array,
  \<open>loadBlocks\<close> returns the empty sequence and the table is empty afterwards. The empty
  string is not a JSON text, which is the first assumption on the parser.
\<close>

theorem loadBlocks_not_array:
  assumes "JSON_parse [] = Inl SyntaxError"
      and "JSON_parse stored = Inr JsonOther"
  shows "loadBlocks JSON_parse (Inr (Some stored)) (t, console) = (Inr [], [], console)"
proof -
  from assms have "stored \<noteq> []" by auto
  with assms(2) show ?thesis
    by (simp add: loadBlocks_parsed rebuildColorAssignments_def)
qed

theorem loadBlocks_not_array_witness:
  \<open>loadBlocks sampleParse (Inr (Some ''{"studyTimetable":[]}''))
      ([(''math'', ''subject-blue'')], []) = (Inr [], [], [])\<close>
  using loadBlocks_not_array[OF sampleParse_values(1) sampleParse_values(2)] .

section \<open>Properties of the statistics\<close>


lemma quotient_of_samples:
  "quotient_of 5400000 = (5400000, 1)"
  "quotient_of (3 / 2) = (3, 2)"
  "quotient_of (1 / 10) = (1, 10)"
  "quotient_of (3602879701896397 / 18014398509481984) = (3602879701896397, 18014398509481984)"
  "quotient_of (10808639105689191 / 36028797018963968) = (10808639105689191, 36028797018963968)"
  by code_simp+

lemma bitlen_samples:
  "bitlen 1 = 1" "bitlen 2 = 2" "bitlen 3 = 2" "bitlen 10 = 4" "bitlen 5400000 = 23"
  "bitlen 3602879701896397 = 52" "bitlen 18014398509481984 = 55"
  "bitlen 10808639105689191 = 54" "bitlen 36028797018963968 = 56"
  by code_simp+

lemma ilog2_samples:
  "ilog2 5400000 = 22"
  "ilog2 (3 / 2) = 0"
  "ilog2 (1 / 10) = - 4"
  "ilog2 (3602879701896397 / 18014398509481984) = - 3"
  "ilog2 (10808639105689191 / 36028797018963968) = - 2"
  by (simp_all add: ilog2_def quotient_of_samples bitlen_samples pow2_def)

lemma roundHalfEven_samples:
  "roundHalfEven (36028797018963968 / 5) = 7205759403792794"
  "roundHalfEven (10808639105689191 / 2) = 5404319552844596"
  by code_simp+

lemma toDouble_exact_samples:
  "toDouble 5400000 = Num 5400000"
  "toDouble (3 / 2) = Num (3 / 2)"
  "toDouble (3602879701896397 / 18014398509481984) = Num (3602879701896397 / 18014398509481984)"
  by (simp_all add: toDouble_def ilog2_samples pow2_def roundHalfEven_def Let_def)

lemma toDouble_rounded_samples:
  "toDouble (1 / 10) = Num (3602879701896397 / 36028797018963968)"
  "toDouble (10808639105689191 / 36028797018963968) = Num (5404319552844596 / 18014398509481984)"
  by (simp_all add: toDouble_def ilog2_samples pow2_def roundHalfEven_samples Let_def)

lemmas toDouble_samples = toDouble_exact_samples toDouble_rounded_samples

text \<open>
  Three blocks of six minutes: each is \<open>360000 / 3600000\<close> hours, the double nearest to
  0.1, and their total is the double \<open>0.30000000000000004\<close>.
\<close>

lemma double_rounding_sample:
  "num_div (Num 360000) 3600000 = Num (3602879701896397 / 36028797018963968)"
  "num_add (num_add (num_div (Num 360000) 3600000) (num_div (Num 360000) 3600000))
           (num_div (Num 360000) 3600000)
     = Num (5404319552844596 / 18014398509481984)"
  by (simp_all add: toDouble_samples)


end
